theory Spec2Isabelle
  imports Complex_Main "HOL-Library.Word" "HOL-Library.Multiset"
begin

section \<open>Values of the program\<close>

text \<open>
  A JavaScript string is a sequence of UTF-16 code units; \<open>length\<close> counts code units
  and \<open>charCodeAt\<close> reads one. String literals of the source are written with \<open>lit\<close>.
\<close>

type_synonym jsstring = "16 word list"

definition lit :: "string \<Rightarrow> jsstring" where
  "lit s = map (\<lambda>c. word_of_nat (of_char c)) s"

text \<open>
  Numbers are modelled as real numbers: sums and products are exact and do not overflow.
  The one operation of the source whose result may fail to be a finite number is the
  division, so its result is a \<open>jsnumber\<close>: dividing by zero gives \<open>NaN\<close> or an
  infinity, as in JavaScript, and not HOL's \<open>x / 0 = 0\<close>.
\<close>

datatype jsnumber = Num real | NaN | PosInfinity | NegInfinity

definition js_divide :: "real \<Rightarrow> real \<Rightarrow> jsnumber" where
  "js_divide x y =
     (if y \<noteq> 0 then Num (x / y)
      else if x = 0 then NaN
      else if 0 < x then PosInfinity else NegInfinity)"

text \<open>
  Every \<open>throw\<close> of the source is a constructor. An error caught and thrown again inside
  a new \<open>Error\<close> (\<open>`Semantic search failed: ${error.message}`\<close>) keeps the error it wraps.
\<close>

datatype error =
    DimensionMismatch            \<comment> \<open>\<open>new Error('Vectors must be of the same length')\<close>\<close>
  | TypeError                    \<comment> \<open>a method called on \<open>undefined\<close>\<close>
  | ServiceError                 \<comment> \<open>an external collaborator threw\<close>
  | TextGenerationFailed error   \<comment> \<open>\<open>AI text generation failed: ...\<close>\<close>
  | QueryEmbeddingFailed error   \<comment> \<open>\<open>Failed to generate query embedding: ...\<close>\<close>
  | AtlasNotConfigured           \<comment> \<open>\<open>Atlas Vector Search not configured\<close>\<close>
  | SemanticSearchFailed error   \<comment> \<open>\<open>Semantic search failed: ...\<close>\<close>
  | ThesisNotFound               \<comment> \<open>\<open>Thesis not found\<close>\<close>
  | SimilarSearchFailed error    \<comment> \<open>\<open>Similar thesis search failed: ...\<close>\<close>
  | ChatProcessingFailed error   \<comment> \<open>\<open>Chat processing failed: ...\<close>\<close>

section \<open>Vector utilities\<close>

text \<open>
  A vector argument is \<open>None\<close> when the caller passes \<open>undefined\<close> or \<open>null\<close>
  (the test \<open>!vecA\<close>); an empty array is truthy. The \<open>for\<close> loops run over the indices
  \<open>0 ..< vecA.length\<close> and update their accumulators.
\<close>

definition dotProduct :: "real list option \<Rightarrow> real list option \<Rightarrow> error + real" where
  "dotProduct vecA vecB =
     (case vecA of None \<Rightarrow> Inl DimensionMismatch | Some a \<Rightarrow>
      case vecB of None \<Rightarrow> Inl DimensionMismatch | Some b \<Rightarrow>
        if length a \<noteq> length b then Inl DimensionMismatch
        else Inr (fold (\<lambda>i product. product + a ! i * b ! i) [0..<length a] 0))"

definition cosineLoop :: "real list \<Rightarrow> real list \<Rightarrow> real \<times> real \<times> real" where
  "cosineLoop a b =
     fold (\<lambda>i (dotP, normA, normB).
             (dotP + a ! i * b ! i, normA + a ! i * a ! i, normB + b ! i * b ! i))
          [0..<length a] (0, 0, 0)"

definition cosineSimilarity :: "real list option \<Rightarrow> real list option \<Rightarrow> error + jsnumber" where
  "cosineSimilarity vecA vecB =
     (case vecA of None \<Rightarrow> Inl DimensionMismatch | Some a \<Rightarrow>
      case vecB of None \<Rightarrow> Inl DimensionMismatch | Some b \<Rightarrow>
        if length a \<noteq> length b then Inl DimensionMismatch
        else (case cosineLoop a b of (dotP, sumA, sumB) \<Rightarrow>
                let normA = sqrt sumA; normB = sqrt sumB in
                if normA = 0 \<or> normB = 0 then Inr (Num 0)
                else Inr (js_divide dotP (normA * normB))))"

definition euclideanDistance :: "real list option \<Rightarrow> real list option \<Rightarrow> error + real" where
  "euclideanDistance vecA vecB =
     (case vecA of None \<Rightarrow> Inl DimensionMismatch | Some a \<Rightarrow>
      case vecB of None \<Rightarrow> Inl DimensionMismatch | Some b \<Rightarrow>
        if length a \<noteq> length b then Inl DimensionMismatch
        else Inr (sqrt (fold (\<lambda>i sum. let diff = a ! i - b ! i in sum + diff * diff)
                             [0..<length a] 0)))"

text \<open>The Euclidean norm of a vector, as mathematics has it.\<close>

definition euclideanNorm :: "real list \<Rightarrow> real" where
  "euclideanNorm v = sqrt (\<Sum>x\<leftarrow>v. x * x)"

section \<open>Hash-based fallback embeddings\<close>

text \<open>
  \<open>simulateEmbeddings\<close> of the AI service: every code unit of the text adds
  \<open>charCode / 1000\<close> to the entry \<open>charCode % dimension\<close> of a vector of
  \<open>dimension\<close> zeros; the vector is then divided by \<open>norm || 1\<close>.
\<close>

definition hashLoop :: "nat \<Rightarrow> jsstring \<Rightarrow> real list" where
  "hashLoop dimension text =
     fold (\<lambda>i embedding.
             let charCode = unat (text ! i);
                 idx = charCode mod dimension
             in embedding[idx := embedding ! idx + real charCode / 1000])
          [0..<length text] (replicate dimension 0)"

definition simulateEmbeddings :: "jsstring \<Rightarrow> jsnumber list" where
  "simulateEmbeddings text =
     (let dimension = 768;
          embedding = hashLoop dimension text;
          norm = sqrt (fold (\<lambda>val sum. sum + val * val) embedding 0)
      in map (\<lambda>val. js_divide val (if norm = 0 then 1 else norm)) embedding)"

section \<open>External collaborators\<close>

record thesis =
  thesis_id :: nat
  title :: jsstring
  abstract :: jsstring
  tags :: "jsstring list"
  embeddings :: "real list option"
  createdAt :: nat

text \<open>The parameters of the \<open>$vectorSearch\<close> stage of the aggregation pipeline.\<close>

record vectorSearch =
  vs_index :: string
  vs_path :: string
  queryVector :: "real list option"
  numCandidates :: int
  vs_limit :: int

text \<open>
  Every call that leaves the process is recorded: \<open>aiService.generateText\<close> with its
  prompt, temperature and token budget, the embedding of a query, \<open>Thesis.aggregate\<close>
  with its \<open>$vectorSearch\<close> stage and the threshold of its \<open>$match\<close> stage,
  \<open>Thesis.find\<close> (\<open>Find None\<close> is \<open>find({})\<close>, \<open>Find (Some i)\<close> is
  \<open>find({_id: {$ne: i}})\<close>) and \<open>Thesis.findById\<close>.
\<close>

datatype call =
    GenerateText jsstring real nat
  | GenerateEmbeddings jsstring
  | Aggregate vectorSearch real
  | Find "nat option"
  | FindById nat

text \<open>
  A collaborator answers a call knowing the calls made so far (the last one is the call
  it answers), so it may answer the same question differently each time. It throws
  (\<open>Inl\<close>) or returns. The text generation may return \<open>undefined\<close> (\<open>None\<close>), the
  vector index returns documents with their \<open>vectorSearchScore\<close>, the collection
  returns the stored documents in storage order.
\<close>

record services =
  textGeneration :: "call list \<Rightarrow> error + jsstring option"
  embeddingModel :: "call list \<Rightarrow> error + real list option"
  vectorIndex :: "call list \<Rightarrow> error + (thesis \<times> real) list"
  collection :: "call list \<Rightarrow> error + thesis list"

text \<open>
  An asynchronous function of the source takes the calls made so far and returns its
  result, or the error it throws, with the calls extended. \<open>bindM\<close> is \<open>await\<close>
  followed by the rest of the body, \<open>catchM\<close> is \<open>try { ... } catch (e) { ... }\<close>.
\<close>

type_synonym 'a io = "call list \<Rightarrow> (error + 'a) \<times> call list"

definition returnM :: "'a \<Rightarrow> 'a io" where
  "returnM x = (\<lambda>calls. (Inr x, calls))"

definition throwM :: "error \<Rightarrow> 'a io" where
  "throwM e = (\<lambda>calls. (Inl e, calls))"

definition bindM :: "'a io \<Rightarrow> ('a \<Rightarrow> 'b io) \<Rightarrow> 'b io" where
  "bindM m f = (\<lambda>calls. case m calls of (Inl e, calls') \<Rightarrow> (Inl e, calls') | (Inr x, calls') \<Rightarrow> f x calls')"

definition catchM :: "'a io \<Rightarrow> (error \<Rightarrow> 'a io) \<Rightarrow> 'a io" where
  "catchM m h = (\<lambda>calls. case m calls of (Inl e, calls') \<Rightarrow> h e calls' | (Inr x, calls') \<Rightarrow> (Inr x, calls'))"

definition callM :: "call \<Rightarrow> (call list \<Rightarrow> error + 'a) \<Rightarrow> 'a io" where
  "callM c respond = (\<lambda>calls. (respond (calls @ [c]), calls @ [c]))"

definition liftE :: "error + 'a \<Rightarrow> 'a io" where
  "liftE r = (\<lambda>calls. (r, calls))"

text \<open>\<open>xs.map(f)\<close> where \<open>f\<close> may throw: the first throw ends the map.\<close>

fun mapE :: "('a \<Rightarrow> error + 'b) \<Rightarrow> 'a list \<Rightarrow> error + 'b list" where
  "mapE f [] = Inr []"
| "mapE f (x # xs) =
     (case f x of Inl e \<Rightarrow> Inl e
      | Inr y \<Rightarrow> (case mapE f xs of Inl e \<Rightarrow> Inl e | Inr ys \<Rightarrow> Inr (y # ys)))"

text \<open>
  \<open>xs.sort(cmp)\<close> is a stable sort: \<open>x\<close> goes before the first \<open>y\<close> with
  \<open>cmp(x, y) <= 0\<close>. \<open>xs.slice(0, end)\<close> counts a negative \<open>end\<close> from the end of
  the array.
\<close>

fun insort_cmp :: "('a \<Rightarrow> 'a \<Rightarrow> real) \<Rightarrow> 'a \<Rightarrow> 'a list \<Rightarrow> 'a list" where
  "insort_cmp cmp x [] = [x]"
| "insort_cmp cmp x (y # ys) =
     (if cmp x y \<le> 0 then x # y # ys else y # insort_cmp cmp x ys)"

definition sort_cmp :: "('a \<Rightarrow> 'a \<Rightarrow> real) \<Rightarrow> 'a list \<Rightarrow> 'a list" where
  "sort_cmp cmp xs = foldr (insort_cmp cmp) xs []"

definition slice0 :: "'a list \<Rightarrow> int \<Rightarrow> 'a list" where
  "slice0 xs end =
     (if end < 0 then take (nat (int (length xs) + end)) xs else take (nat end) xs)"

section \<open>AI service and embedding service\<close>

definition generateText :: "services \<Rightarrow> jsstring \<Rightarrow> real \<Rightarrow> nat \<Rightarrow> jsstring option io" where
  "generateText srv prompt temperature maxTokens =
     catchM (callM (GenerateText prompt temperature maxTokens) (textGeneration srv))
            (\<lambda>e. throwM (TextGenerationFailed e))"

definition generateQueryEmbedding :: "services \<Rightarrow> jsstring \<Rightarrow> real list option io" where
  "generateQueryEmbedding srv query =
     catchM (callM (GenerateEmbeddings query) (embeddingModel srv))
            (\<lambda>e. throwM (QueryEmbeddingFailed e))"

section \<open>Search service\<close>

text \<open>A thesis of a result list: the document without its embeddings, and its score.\<close>

record scored =
  doc :: thesis
  score :: real

text \<open>
  The options of a search; a field is \<open>None\<close> when the caller leaves it out. A limit
  is an integer of either sign: the controllers pass \<open>parseInt(limit)\<close> as it comes.
\<close>

record search_options =
  opt_limit :: "int option"
  opt_threshold :: "real option"

definition vectorSearchStage :: "real list option \<Rightarrow> int \<Rightarrow> vectorSearch" where
  "vectorSearchStage queryEmbedding limit =
     \<lparr>vs_index = ''semanticsearch'', vs_path = ''embeddings'',
      queryVector = queryEmbedding, numCandidates = 100, vs_limit = limit\<rparr>"

text \<open>
  The stages after \<open>$vectorSearch\<close>: \<open>$addFields\<close> copies the
  \<open>vectorSearchScore\<close> into \<open>score\<close>, \<open>$match\<close> keeps the documents with
  \<open>score >= threshold\<close>, \<open>$project\<close> keeps the listed fields, which leaves the
  embeddings out.
\<close>

definition addFieldsScore :: "(thesis \<times> real) list \<Rightarrow> scored list" where
  "addFieldsScore candidates = map (\<lambda>(t, meta). \<lparr>doc = t, score = meta\<rparr>) candidates"

definition matchScoreGte :: "real \<Rightarrow> scored list \<Rightarrow> scored list" where
  "matchScoreGte threshold docs = filter (\<lambda>r. score r \<ge> threshold) docs"

definition projectFields :: "scored list \<Rightarrow> scored list" where
  "projectFields docs = map (\<lambda>r. r\<lparr>doc := (doc r)\<lparr>embeddings := None\<rparr>\<rparr>) docs"

definition atlasVectorSearch :: "services \<Rightarrow> real list option \<Rightarrow> int \<Rightarrow> real \<Rightarrow> scored list io" where
  "atlasVectorSearch srv queryEmbedding limit threshold =
     catchM
       (bindM (callM (Aggregate (vectorSearchStage queryEmbedding limit) threshold) (vectorIndex srv))
          (\<lambda>candidates.
             returnM (projectFields (matchScoreGte threshold (addFieldsScore candidates)))))
       (\<lambda>e. throwM AtlasNotConfigured)"

definition scoreThesis :: "real list option \<Rightarrow> thesis \<Rightarrow> error + scored" where
  "scoreThesis queryEmbedding t =
     (case dotProduct queryEmbedding (embeddings t) of
        Inl e \<Rightarrow> Inl e
      | Inr s \<Rightarrow> Inr \<lparr>doc = t\<lparr>embeddings := None\<rparr>, score = s\<rparr>)"

definition manualVectorSearch :: "services \<Rightarrow> real list option \<Rightarrow> int \<Rightarrow> real \<Rightarrow> scored list io" where
  "manualVectorSearch srv queryEmbedding limit threshold =
     catchM
       (bindM (callM (Find None) (collection srv))
          (\<lambda>allTheses.
             bindM (liftE (mapE (scoreThesis queryEmbedding) allTheses))
               (\<lambda>resultsWithScores.
                  returnM (slice0 (sort_cmp (\<lambda>a b. score b - score a)
                                     (filter (\<lambda>result. score result \<ge> threshold) resultsWithScores))
                                  limit))))
       (\<lambda>e. throwM e)"

definition semanticSearch :: "services \<Rightarrow> jsstring \<Rightarrow> search_options \<Rightarrow> scored list io" where
  "semanticSearch srv query options =
     catchM
       (let limit = (case opt_limit options of None \<Rightarrow> 10 | Some l \<Rightarrow> l);
            threshold = (case opt_threshold options of None \<Rightarrow> 1 / 2 | Some t \<Rightarrow> t)
        in bindM (generateQueryEmbedding srv query)
             (\<lambda>queryEmbedding.
                bindM (catchM
                         (bindM (atlasVectorSearch srv queryEmbedding limit threshold)
                            (\<lambda>results. returnM (if length results > 0 then Some results else None)))
                         (\<lambda>atlasError. returnM None))
                  (\<lambda>returned.
                     case returned of
                       Some results \<Rightarrow> returnM results
                     | None \<Rightarrow> manualVectorSearch srv queryEmbedding limit threshold)))
       (\<lambda>e. throwM (SemanticSearchFailed e))"

definition findSimilarTheses :: "services \<Rightarrow> nat \<Rightarrow> int option \<Rightarrow> scored list io" where
  "findSimilarTheses srv thesisId limitArg =
     catchM
       (let limit = (case limitArg of None \<Rightarrow> 5 | Some l \<Rightarrow> l)
        in bindM (callM (FindById thesisId)
                    (\<lambda>calls. case collection srv calls of
                             Inl e \<Rightarrow> Inl e
                           | Inr stored \<Rightarrow> Inr (find (\<lambda>t. thesis_id t = thesisId) stored)))
             (\<lambda>referenceThesis.
                case referenceThesis of
                  None \<Rightarrow> throwM ThesisNotFound
                | Some reference \<Rightarrow>
                    bindM (callM (Find (Some thesisId))
                             (\<lambda>calls. case collection srv calls of
                                      Inl e \<Rightarrow> Inl e
                                    | Inr stored \<Rightarrow> Inr (filter (\<lambda>t. thesis_id t \<noteq> thesisId) stored)))
                      (\<lambda>allTheses.
                         bindM (liftE (mapE (scoreThesis (embeddings reference)) allTheses))
                           (\<lambda>resultsWithScores.
                              returnM (slice0 (sort_cmp (\<lambda>a b. score b - score a) resultsWithScores)
                                              limit)))))
       (\<lambda>e. throwM (SimilarSearchFailed e))"

section \<open>String operations of the chat service\<close>

text \<open>
  \<open>s.trim()\<close> removes the white space and line terminators of ECMAScript from both
  ends.
\<close>

definition isWhiteSpace :: "16 word \<Rightarrow> bool" where
  "isWhiteSpace c =
     (c \<in> {0x9, 0xA, 0xB, 0xC, 0xD, 0x20, 0xA0, 0x1680, 0x2028, 0x2029, 0x202F, 0x205F,
            0x3000, 0xFEFF}
      \<or> (0x2000 \<le> c \<and> c \<le> 0x200A))"

definition trim :: "jsstring \<Rightarrow> jsstring" where
  "trim s = rev (dropWhile isWhiteSpace (rev (dropWhile isWhiteSpace s)))"

text \<open>
  \<open>s.replace(/^["']|["']$/g, '')\<close>: a quote at the start is removed, and a quote at
  the end that is not that same character.
\<close>

definition isQuote :: "16 word \<Rightarrow> bool" where
  "isQuote c = (c = 0x22 \<or> c = 0x27)"

definition stripQuotes :: "jsstring \<Rightarrow> jsstring" where
  "stripQuotes s =
     (case s of
        [] \<Rightarrow> []
      | c # rest \<Rightarrow>
          if isQuote c
          then (if rest \<noteq> [] \<and> isQuote (last rest) then butlast rest else rest)
          else (if isQuote (last s) then butlast s else s))"

text \<open>
  \<open>s.replace(/\n+/g, ' ')\<close>: each maximal run of line feeds becomes one space. The
  flag says that the previous code unit was a line feed of the current run.
\<close>

fun collapseNewlines :: "bool \<Rightarrow> jsstring \<Rightarrow> jsstring" where
  "collapseNewlines inRun [] = []"
| "collapseNewlines inRun (c # cs) =
     (if c = 0xA
      then (if inRun then collapseNewlines True cs else 0x20 # collapseNewlines True cs)
      else c # collapseNewlines False cs)"

definition replaceNewlines :: "jsstring \<Rightarrow> jsstring" where
  "replaceNewlines s = collapseNewlines False s"

text \<open>\<open>xs.join(sep)\<close>, and a number inside a template literal.\<close>

fun join :: "jsstring \<Rightarrow> jsstring list \<Rightarrow> jsstring" where
  "join sep [] = []"
| "join sep [x] = x"
| "join sep (x # y # ys) = x @ sep @ join sep (y # ys)"

fun showNat :: "nat \<Rightarrow> jsstring" where
  "showNat n =
     (if n < 10 then [0x30 + word_of_nat n]
      else showNat (n div 10) @ [0x30 + word_of_nat (n mod 10)])"

section \<open>Chat service with query rewriting\<close>

record turn =
  role :: jsstring
  content :: jsstring

record source =
  source_id :: nat
  source_title :: jsstring
  source_tags :: "jsstring list"
  relevanceScore :: real

record chat_result =
  answer :: jsstring
  sources :: "source list"
  conversationHistory :: "turn list"

record chat_options =
  opt_conversationHistory :: "turn list option"
  opt_topK :: "int option"

text \<open>\<open>const { conversationHistory = [], topK = 3 } = options\<close>\<close>

definition historyOf :: "chat_options \<Rightarrow> turn list" where
  "historyOf options = (case opt_conversationHistory options of None \<Rightarrow> [] | Some h \<Rightarrow> h)"

definition topKOf :: "chat_options \<Rightarrow> int" where
  "topKOf options = (case opt_topK options of None \<Rightarrow> 3 | Some k \<Rightarrow> k)"

definition speaker :: "turn \<Rightarrow> jsstring" where
  "speaker t = (if role t = lit ''user'' then lit ''User'' else lit ''Assistant'')"

definition turnLine :: "turn \<Rightarrow> jsstring" where
  "turnLine t = speaker t @ lit '': '' @ content t @ lit ''\<newline>''"

text \<open>\<open>history.slice(-3)\<close>: the last three turns.\<close>

definition lastThree :: "turn list \<Rightarrow> turn list" where
  "lastThree history = drop (length history - 3) history"

definition historyContext :: "turn list \<Rightarrow> jsstring" where
  "historyContext history =
     (if length history > 0
      then fold (\<lambda>t ctx. ctx @ turnLine t) (lastThree history)
             (lit ''\<newline>\<newline>Previous conversation context:\<newline>'')
      else [])"

definition rewriteInstructions :: jsstring where
  \<open>rewriteInstructions =
     lit ''You are a query optimization assistant. Your task is to rewrite user questions into optimized search queries that will retrieve the most relevant academic theses from a repository.\<newline>\<newline>''
     @ lit ''Instructions:\<newline>''
     @ lit ''- Extract key concepts, topics, and technical terms from the user's question\<newline>''
     @ lit ''- Expand abbreviations and acronyms (e.g., "AI" '' @ [0x2192] @ lit '' "artificial intelligence")\<newline>''
     @ lit ''- Add related synonyms and domain-specific terms\<newline>''
     @ lit ''- Keep the query concise (1-2 sentences or key phrases)\<newline>''
     @ lit ''- Focus on the main topic and important keywords\<newline>''
     @ lit ''- If the question is already clear and specific, you can return it as-is or make minor improvements\<newline>''\<close>

definition rewritePrompt :: "jsstring \<Rightarrow> turn list \<Rightarrow> jsstring" where
  "rewritePrompt userQuery history =
     rewriteInstructions @ historyContext history
     @ lit ''\<newline>User question: '' @ userQuery
     @ lit ''\<newline>\<newline>Optimized search query:''"

definition cleanQuery :: "jsstring \<Rightarrow> jsstring" where
  "cleanQuery optimizedQuery = trim (replaceNewlines (stripQuotes (trim optimizedQuery)))"

definition rewriteQuery :: "services \<Rightarrow> jsstring \<Rightarrow> turn list \<Rightarrow> jsstring io" where
  "rewriteQuery srv userQuery history =
     catchM
       (bindM (generateText srv (rewritePrompt userQuery history) (3 / 10) 100)
          (\<lambda>optimizedQuery.
             case optimizedQuery of
               None \<Rightarrow> throwM TypeError
             | Some generated \<Rightarrow>
                 let cleanedQuery = cleanQuery generated in
                 if cleanedQuery = [] \<or> length cleanedQuery < 3
                 then returnM userQuery
                 else returnM cleanedQuery))
       (\<lambda>e. returnM userQuery)"

definition thesisBlock :: "nat \<Rightarrow> scored \<Rightarrow> jsstring" where
  "thesisBlock i thesis =
     lit ''Thesis '' @ showNat (i + 1) @ lit '':\<newline>''
     @ lit ''Title: '' @ title (doc thesis) @ lit ''\<newline>''
     @ lit ''Abstract: '' @ abstract (doc thesis) @ lit ''\<newline>''
     @ (if length (tags (doc thesis)) > 0
        then lit ''Tags: '' @ join (lit '', '') (tags (doc thesis)) @ lit ''\<newline>''
        else [])
     @ lit ''\<newline>''"

definition buildContext :: "scored list \<Rightarrow> jsstring" where
  "buildContext theses =
     fold (\<lambda>i ctx. ctx @ thesisBlock i (theses ! i)) [0..<length theses]
       (lit ''Here are some relevant theses from the repository:\<newline>\<newline>'')"

definition ragPreamble :: "jsstring \<Rightarrow> turn list \<Rightarrow> jsstring" where
  "ragPreamble context history =
     lit ''You are an AI assistant helping users explore an academic thesis repository. Your role is to answer questions about theses based on the provided context.\<newline>\<newline>''
     @ lit ''Context from the thesis repository:\<newline>'' @ context @ lit ''\<newline>\<newline>''
     @ (if length history > 0
        then fold (\<lambda>t p. p @ turnLine t) history (lit ''Previous conversation:\<newline>'')
             @ lit ''\<newline>''
        else [])"

definition ragInstructions :: jsstring where
  \<open>ragInstructions =
     lit ''\<newline>\<newline>Instructions:\<newline>''
     @ lit ''- Answer based on the provided thesis context\<newline>''
     @ lit ''- Be concise but informative\<newline>''
     @ lit ''- If the context doesn't contain enough information, say so\<newline>''
     @ lit ''- Reference specific theses when relevant (e.g., "According to Thesis 1..." or "The research on [topic] shows...")\<newline>''
     @ lit ''- If asked about topics not in the context, politely state that you don't have that information in the repository\<newline>''
     @ lit ''- Use natural, conversational language\<newline>\<newline>''
     @ lit ''Answer:''\<close>

definition ragPrompt :: "jsstring \<Rightarrow> jsstring \<Rightarrow> turn list \<Rightarrow> jsstring" where
  "ragPrompt userMessage context history =
     ragPreamble context history @ lit ''User question: '' @ userMessage @ ragInstructions"

definition generateRAGResponse :: "services \<Rightarrow> jsstring \<Rightarrow> jsstring \<Rightarrow> turn list \<Rightarrow> jsstring io" where
  "generateRAGResponse srv userMessage context history =
     catchM
       (bindM (generateText srv (ragPrompt userMessage context history) (7 / 10) 500)
          (\<lambda>generated.
             case generated of
               None \<Rightarrow> throwM TypeError
             | Some text \<Rightarrow> returnM (trim text)))
       (\<lambda>e. throwM e)"

definition noRelevantTheses :: jsstring where
  "noRelevantTheses =
     lit ''I couldn't find any relevant theses in the repository to answer your question. Please try rephrasing your query or asking about different topics.''"

definition formatSource :: "scored \<Rightarrow> source" where
  "formatSource thesis =
     \<lparr>source_id = thesis_id (doc thesis), source_title = title (doc thesis),
      source_tags = tags (doc thesis), relevanceScore = score thesis\<rparr>"

definition userTurn :: "jsstring \<Rightarrow> turn" where
  "userTurn message = \<lparr>role = lit ''user'', content = message\<rparr>"

definition assistantTurn :: "jsstring \<Rightarrow> turn" where
  "assistantTurn reply = \<lparr>role = lit ''assistant'', content = reply\<rparr>"

definition processMessage :: "services \<Rightarrow> jsstring \<Rightarrow> chat_options \<Rightarrow> chat_result io" where
  "processMessage srv message options =
     catchM
       (let history = historyOf options;
            topK = topKOf options
        in bindM (rewriteQuery srv message history)
             (\<lambda>optimizedQuery.
                bindM (semanticSearch srv optimizedQuery
                         \<lparr>opt_limit = Some topK, opt_threshold = Some (3 / 10)\<rparr>)
                  (\<lambda>relevantTheses.
                     if length relevantTheses = 0
                     then returnM \<lparr>answer = noRelevantTheses, sources = [],
                                   conversationHistory = history @ [userTurn message]\<rparr>
                     else
                       let context = buildContext relevantTheses in
                       bindM (generateRAGResponse srv message context history)
                         (\<lambda>reply.
                            returnM \<lparr>answer = reply,
                                     sources = map formatSource relevantTheses,
                                     conversationHistory =
                                       history @ [userTurn message, assistantTurn reply]\<rparr>))))
       (\<lambda>e. throwM (ChatProcessingFailed e))"

section \<open>Chat service without query rewriting\<close>

text \<open>
  \<open>src/backend/src/services/chatService.js\<close> searches with the message itself, always
  prints the tags of a thesis, and has a shorter list of instructions.
\<close>

definition thesisBlock_basic :: "nat \<Rightarrow> scored \<Rightarrow> jsstring" where
  "thesisBlock_basic i thesis =
     lit ''Thesis '' @ showNat (i + 1) @ lit '':\<newline>''
     @ lit ''Title: '' @ title (doc thesis) @ lit ''\<newline>''
     @ lit ''Abstract: '' @ abstract (doc thesis) @ lit ''\<newline>''
     @ lit ''Tags: '' @ join (lit '', '') (tags (doc thesis)) @ lit ''\<newline>\<newline>''"

definition buildContext_basic :: "scored list \<Rightarrow> jsstring" where
  "buildContext_basic theses =
     fold (\<lambda>i ctx. ctx @ thesisBlock_basic i (theses ! i)) [0..<length theses]
       (lit ''Here are some relevant theses from the repository:\<newline>\<newline>'')"

definition ragInstructions_basic :: jsstring where
  \<open>ragInstructions_basic =
     lit ''\<newline>\<newline>Instructions:\<newline>''
     @ lit ''- Answer based on the provided thesis context\<newline>''
     @ lit ''- Be concise but informative\<newline>''
     @ lit ''- If the context doesn't contain enough information, say so\<newline>''
     @ lit ''- Reference specific theses when relevant\<newline>''
     @ lit ''- If asked about topics not in the context, politely state that you don't have that information in the repository\<newline>\<newline>''
     @ lit ''Answer:''\<close>

definition ragPrompt_basic :: "jsstring \<Rightarrow> jsstring \<Rightarrow> turn list \<Rightarrow> jsstring" where
  "ragPrompt_basic userMessage context history =
     ragPreamble context history @ lit ''User question: '' @ userMessage @ ragInstructions_basic"

definition generateRAGResponse_basic :: "services \<Rightarrow> jsstring \<Rightarrow> jsstring \<Rightarrow> turn list \<Rightarrow> jsstring io" where
  "generateRAGResponse_basic srv userMessage context history =
     catchM
       (bindM (generateText srv (ragPrompt_basic userMessage context history) (7 / 10) 500)
          (\<lambda>generated.
             case generated of
               None \<Rightarrow> throwM TypeError
             | Some text \<Rightarrow> returnM (trim text)))
       (\<lambda>e. throwM e)"

definition processMessage_basic :: "services \<Rightarrow> jsstring \<Rightarrow> chat_options \<Rightarrow> chat_result io" where
  "processMessage_basic srv message options =
     catchM
       (let history = historyOf options;
            topK = topKOf options
        in bindM (semanticSearch srv message
                    \<lparr>opt_limit = Some topK, opt_threshold = Some (3 / 10)\<rparr>)
             (\<lambda>relevantTheses.
                if length relevantTheses = 0
                then returnM \<lparr>answer = noRelevantTheses, sources = [],
                              conversationHistory = history @ [userTurn message]\<rparr>
                else
                  let context = buildContext_basic relevantTheses in
                  bindM (generateRAGResponse_basic srv message context history)
                    (\<lambda>reply.
                       returnM \<lparr>answer = reply,
                                sources = map formatSource relevantTheses,
                                conversationHistory =
                                  history @ [userTurn message, assistantTurn reply]\<rparr>)))
       (\<lambda>e. throwM (ChatProcessingFailed e))"

section \<open>Ranked result lists\<close>


section \<open>Observations on a chat turn\<close>

text \<open>The calls to the text generation among the recorded calls.\<close>

fun isGenerateText :: "call \<Rightarrow> bool" where
  "isGenerateText (GenerateText p t m) = True"
| "isGenerateText c = False"

text \<open>
  The rewriting produced nothing: the generation call threw or returned \<open>undefined\<close>
  (on which \<open>trim\<close> throws), or the cleaned text is empty or shorter than 3.
\<close>

definition rewriteFails :: "services \<Rightarrow> jsstring \<Rightarrow> turn list \<Rightarrow> call list \<Rightarrow> bool" where
  "rewriteFails srv userQuery history calls =
     (case textGeneration srv (calls @ [GenerateText (rewritePrompt userQuery history) (3 / 10) 100]) of
        Inl e \<Rightarrow> True
      | Inr None \<Rightarrow> True
      | Inr (Some generated) \<Rightarrow> cleanQuery generated = [] \<or> length (cleanQuery generated) < 3)"

section \<open>Example stores\<close>

definition thesisD1 :: thesis where
  "thesisD1 = \<lparr>thesis_id = 1, title = lit ''Deep Learning for NLP'',
               abstract = lit ''Neural language models.'', tags = [lit ''nlp'', lit ''deep learning''],
               embeddings = Some [1, 0], createdAt = 1\<rparr>"

definition thesisD2 :: thesis where
  "thesisD2 = \<lparr>thesis_id = 2, title = lit ''Blockchain Supply Chains'',
               abstract = lit ''Ledgers for logistics.'', tags = [lit ''blockchain''],
               embeddings = Some [0, 1], createdAt = 2\<rparr>"

definition thesisD3 :: thesis where
  "thesisD3 = \<lparr>thesis_id = 3, title = lit ''Speech Recognition'',
               abstract = lit ''Acoustic models.'', tags = [],
               embeddings = Some [3 / 5, 4 / 5], createdAt = 3\<rparr>"

definition exampleServices ::
  "(call list \<Rightarrow> error + jsstring option) \<Rightarrow> (error + (thesis \<times> real) list) \<Rightarrow> thesis list
     \<Rightarrow> services" where
  "exampleServices generated indexed stored =
     \<lparr>textGeneration = generated,
      embeddingModel = (\<lambda>calls. Inr (Some [1, 0])),
      vectorIndex = (\<lambda>calls. indexed),
      collection = (\<lambda>calls. Inr stored)\<rparr>"

definition ex_store2 :: services where
  "ex_store2 = exampleServices (\<lambda>calls. Inl ServiceError) (Inl ServiceError) [thesisD1, thesisD2]"

definition ex_store3 :: services where
  "ex_store3 = exampleServices (\<lambda>calls. Inl ServiceError) (Inl ServiceError) [thesisD1, thesisD2, thesisD3]"

definition ex_indexed :: services where
  "ex_indexed = exampleServices (\<lambda>calls. Inl ServiceError)
                  (Inr [(thesisD1, 9 / 10), (thesisD2, 1 / 5)]) [thesisD1, thesisD2]"

definition ex_empty :: services where
  "ex_empty = exampleServices (\<lambda>calls. Inl ServiceError) (Inl ServiceError) []"


text \<open>The text generation is down for the first call and answers afterwards.\<close>

definition ex_rewrite_down :: services where
  "ex_rewrite_down =
     exampleServices (\<lambda>calls. if length calls = 1 then Inl ServiceError
                              else Inr (Some (lit ''See Thesis 1.'')))
       (Inl ServiceError) [thesisD1, thesisD2]"

text \<open>The text generation answers every prompt with the same text.\<close>

definition ex_chat :: services where
  "ex_chat =
     exampleServices (\<lambda>calls. Inr (Some (lit ''deep learning'')))
       (Inr [(thesisD1, 9 / 10), (thesisD2, 1 / 5)]) [thesisD1, thesisD2]"

definition noOptions :: chat_options where
  "noOptions = \<lparr>opt_conversationHistory = None, opt_topK = None\<rparr>"

section \<open>Properties of the vector utilities\<close>

lemma cosineLoop_upto:
  "n \<le> length a \<Longrightarrow> n \<le> length b \<Longrightarrow>
   fold (\<lambda>i (dotP, normA, normB).
           (dotP + a ! i * b ! i, normA + a ! i * a ! i, normB + b ! i * b ! i))
        [0..<n] (0, 0, 0)
   = (\<Sum>i<n. a ! i * b ! i, \<Sum>i<n. a ! i * a ! i, \<Sum>i<n. b ! i * b ! i)"
  by (induction n) simp_all

lemma sum_squares_nth: "(\<Sum>i<length v. v ! i * v ! i) = (\<Sum>x\<leftarrow>v. x * (x::real))"
proof -
  have "(\<Sum>x\<leftarrow>v. x * x) = (\<Sum>i = 0..<length v. v ! i * v ! i)"
    by (simp add: sum_list_sum_nth)
  then show ?thesis
    by (simp add: lessThan_atLeast0)
qed

lemma cosineLoop_sums:
  assumes "length a = length b"
  shows "cosineLoop a b =
         (\<Sum>i<length a. a ! i * b ! i, \<Sum>x\<leftarrow>a. x * x, \<Sum>x\<leftarrow>b. x * x)"
proof -
  have "cosineLoop a b =
        (\<Sum>i<length a. a ! i * b ! i, \<Sum>i<length a. a ! i * a ! i, \<Sum>i<length a. b ! i * b ! i)"
    unfolding cosineLoop_def using assms by (simp add: cosineLoop_upto)
  then show ?thesis
    using assms sum_squares_nth [of a] sum_squares_nth [of b] by simp
qed

text \<open>
  C8. Called on two vectors of different lengths, each of \<open>dotProduct\<close>,
  \<open>cosineSimilarity\<close> and \<open>euclideanDistance\<close> throws the dimension error
  (\<open>Vectors must be of the same length\<close>) and returns no value.
\<close>

theorem vector_functions_reject_length_mismatch:
  assumes "length a \<noteq> length b"
  shows "dotProduct (Some a) (Some b) = Inl DimensionMismatch
       \<and> cosineSimilarity (Some a) (Some b) = Inl DimensionMismatch
       \<and> euclideanDistance (Some a) (Some b) = Inl DimensionMismatch"
  using assms by (simp add: dotProduct_def cosineSimilarity_def euclideanDistance_def)

theorem vector_functions_reject_length_mismatch_witness:
  "length [1::real] \<noteq> length [1::real, 2]
   \<and> dotProduct (Some [1]) (Some [1, 2]) = Inl DimensionMismatch
   \<and> cosineSimilarity (Some [1]) (Some [1, 2]) = Inl DimensionMismatch
   \<and> euclideanDistance (Some [1]) (Some [1, 2]) = Inl DimensionMismatch"
  using vector_functions_reject_length_mismatch [of "[1]" "[1, 2]"] by simp

text \<open>
  C9. On two vectors of the same length of which at least one has Euclidean norm 0,
  \<open>cosineSimilarity\<close> returns the number 0: it neither throws nor divides by the
  zero product of the norms.
\<close>

theorem cosineSimilarity_zero_norm:
  assumes "length a = length b"
    and "euclideanNorm a = 0 \<or> euclideanNorm b = 0"
  shows "cosineSimilarity (Some a) (Some b) = Inr (Num 0)"
  using assms by (auto simp: cosineSimilarity_def cosineLoop_sums euclideanNorm_def)

theorem cosineSimilarity_zero_norm_witness:
  "length [0::real, 0] = length [3::real, 4]
   \<and> (euclideanNorm [0, 0] = 0 \<or> euclideanNorm [3, 4] = 0)
   \<and> cosineSimilarity (Some [0, 0]) (Some [3, 4]) = Inr (Num 0)"
proof -
  have len: "length [0::real, 0] = length [3::real, 4]" by simp
  have norm: "euclideanNorm [0, 0] = 0 \<or> euclideanNorm [3, 4] = 0"
    by (simp add: euclideanNorm_def)
  show ?thesis
    using len norm cosineSimilarity_zero_norm [OF len norm] by simp
qed

section \<open>Properties of the fallback embeddings\<close>

lemma length_hashLoop: "length (hashLoop dimension text) = dimension"
proof -
  have "length (fold (\<lambda>i embedding.
             let charCode = unat (text ! i);
                 idx = charCode mod dimension
             in embedding[idx := embedding ! idx + real charCode / 1000]) is e) = length e"
    for "is" e
    by (induction "is" arbitrary: e) (simp_all add: Let_def)
  then show ?thesis by (simp add: hashLoop_def)
qed

lemma sum_squares_zeros: "fold (\<lambda>val sum. sum + val * val) (replicate n (0::real)) s = s"
  by (induction n) simp_all

text \<open>
  C10. On every string \<open>simulateEmbeddings\<close> returns 768 entries, each of them a
  finite number: the divisor \<open>norm || 1\<close> is never zero. When the accumulated vector
  is all zeros, as for the empty string, the result is the zero vector of length 768.
\<close>

theorem simulateEmbeddings_total:
  "length (simulateEmbeddings text) = 768
   \<and> (\<exists>vs. simulateEmbeddings text = map Num vs)
   \<and> (hashLoop 768 text = replicate 768 0 \<longrightarrow> simulateEmbeddings text = replicate 768 (Num 0))"
proof (intro conjI impI)
  show "length (simulateEmbeddings text) = 768"
    by (simp add: simulateEmbeddings_def Let_def length_hashLoop)
next
  let ?norm = "sqrt (fold (\<lambda>val sum. sum + val * val) (hashLoop 768 text) 0)"
  let ?d = "if ?norm = 0 then 1 else ?norm"
  have "?d \<noteq> 0" by simp
  then have "simulateEmbeddings text = map Num (map (\<lambda>val. val / ?d) (hashLoop 768 text))"
    by (simp add: simulateEmbeddings_def Let_def js_divide_def)
  then show "\<exists>vs. simulateEmbeddings text = map Num vs" by blast
next
  assume "hashLoop 768 text = replicate 768 0"
  then show "simulateEmbeddings text = replicate 768 (Num 0)"
    by (simp add: simulateEmbeddings_def Let_def sum_squares_zeros js_divide_def)
qed

theorem simulateEmbeddings_total_witness:
  "hashLoop 768 [] = replicate 768 0 \<and> simulateEmbeddings [] = replicate 768 (Num 0)"
proof -
  have zero: "hashLoop 768 [] = replicate 768 0"
    by (simp add: hashLoop_def)
  show ?thesis
    using zero simulateEmbeddings_total [of "[]"] by simp
qed

section \<open>Properties of the search service\<close>

lemmas io_defs = returnM_def throwM_def bindM_def catchM_def callM_def liftE_def

lemma sort_cmp_Cons: "sort_cmp cmp (x # xs) = insort_cmp cmp x (sort_cmp cmp xs)"
  by (simp add: sort_cmp_def)

lemma sort_cmp_Nil: "sort_cmp cmp [] = []"
  by (simp add: sort_cmp_def)

lemma set_insort_cmp: "set (insort_cmp cmp x xs) = insert x (set xs)"
  by (induction xs) auto


lemma set_sort_cmp: "set (sort_cmp cmp xs) = set xs"
  by (induction xs) (simp_all add: sort_cmp_Nil sort_cmp_Cons set_insort_cmp)




lemma set_slice0: "set (slice0 xs n) \<subseteq> set xs"
  by (simp add: slice0_def set_take_subset)






lemma atlasVectorSearch_threshold:
  assumes "atlasVectorSearch srv q limit threshold calls = (Inr results, calls')"
    and "r \<in> set results"
  shows "threshold \<le> score r"
  using assms
  by (auto simp: atlasVectorSearch_def io_defs projectFields_def matchScoreGte_def
           split: sum.splits)

lemma manualVectorSearch_result:
  assumes "manualVectorSearch srv q limit threshold calls = (Inr results, calls')"
  obtains stored scoredAll where
    "collection srv (calls @ [Find None]) = Inr stored"
    and "mapE (scoreThesis q) stored = Inr scoredAll"
    and "results = slice0 (sort_cmp (\<lambda>a b. score b - score a)
                            (filter (\<lambda>result. score result \<ge> threshold) scoredAll)) limit"
    and "calls' = calls @ [Find None]"
  using assms
  by (auto simp: manualVectorSearch_def io_defs split: sum.splits)

lemma manualVectorSearch_threshold:
  assumes "manualVectorSearch srv q limit threshold calls = (Inr results, calls')"
    and "r \<in> set results"
  shows "threshold \<le> score r"
proof -
  from assms(1) obtain scoredAll where
    res: "results = slice0 (sort_cmp (\<lambda>a b. score b - score a)
                            (filter (\<lambda>result. score result \<ge> threshold) scoredAll)) limit"
    by (rule manualVectorSearch_result)
  have "set results \<subseteq> set (filter (\<lambda>result. score result \<ge> threshold) scoredAll)"
    unfolding res
    using set_slice0 [of "sort_cmp (\<lambda>a b. score b - score a)
                            (filter (\<lambda>result. score result \<ge> threshold) scoredAll)" limit]
    by (simp add: set_sort_cmp)
  with assms(2) show ?thesis by auto
qed

lemma bindM_Inr_iff:
  "(bindM m f calls = (Inr y, calls')) = (\<exists>x c1. m calls = (Inr x, c1) \<and> f x c1 = (Inr y, calls'))"
  by (auto simp: bindM_def split: prod.splits sum.splits)

lemma catchM_Inr_iff:
  "(catchM m h calls = (Inr y, calls')) =
   (m calls = (Inr y, calls') \<or> (\<exists>e c1. m calls = (Inl e, c1) \<and> h e c1 = (Inr y, calls')))"
  by (auto simp: catchM_def split: prod.splits sum.splits)

lemma returnM_iff: "(returnM x calls = (r, calls')) = (r = Inr x \<and> calls' = calls)"
  by (auto simp: returnM_def)

lemma throwM_iff: "(throwM e calls = (r, calls')) = (r = Inl e \<and> calls' = calls)"
  by (auto simp: throwM_def)

lemma semanticSearch_paths:
  assumes "semanticSearch srv query options calls = (Inr results, calls')"
  shows "\<exists>q limit c1.
           (atlasVectorSearch srv q limit
              (case opt_threshold options of None \<Rightarrow> 1 / 2 | Some t \<Rightarrow> t) c1 = (Inr results, calls')
            \<and> results \<noteq> [])
         \<or> manualVectorSearch srv q limit
              (case opt_threshold options of None \<Rightarrow> 1 / 2 | Some t \<Rightarrow> t) c1 = (Inr results, calls')"
proof -
  let ?limit = "case opt_limit options of None \<Rightarrow> 10 | Some l \<Rightarrow> l"
  let ?threshold = "case opt_threshold options of None \<Rightarrow> 1 / 2 | Some t \<Rightarrow> t"
  from assms obtain q c1 returned c2 where
    atlas: "catchM
              (bindM (atlasVectorSearch srv q ?limit ?threshold)
                 (\<lambda>results. returnM (if length results > 0 then Some results else None)))
              (\<lambda>atlasError. returnM None) c1 = (Inr returned, c2)"
    and rest: "(case returned of
                  Some results \<Rightarrow> returnM results
                | None \<Rightarrow> manualVectorSearch srv q ?limit ?threshold) c2 = (Inr results, calls')"
    unfolding semanticSearch_def Let_def
    by (simp add: catchM_Inr_iff [of _ "\<lambda>e. throwM (SemanticSearchFailed e)"] throwM_iff bindM_Inr_iff) blast
  show ?thesis
  proof (cases returned)
    case None
    with rest show ?thesis by auto
  next
    case (Some found)
    with rest have eq: "found = results" "c2 = calls'"
      by (simp_all add: returnM_iff)
    from atlas Some have "\<exists>rs c3. atlasVectorSearch srv q ?limit ?threshold c1 = (Inr rs, c3)
          \<and> returnM (if length rs > 0 then Some rs else None) c3 = (Inr (Some found), c2)"
      by (simp add: catchM_Inr_iff [of _ "\<lambda>atlasError. returnM None"] returnM_iff bindM_Inr_iff)
    then obtain rs c3 where a: "atlasVectorSearch srv q ?limit ?threshold c1 = (Inr rs, c3)"
      and b: "returnM (if length rs > 0 then Some rs else None) c3 = (Inr (Some found), c2)"
      by blast
    from b have "rs = found" "c3 = c2" "rs \<noteq> []"
      by (auto simp: returnM_def split: if_splits)
    with a eq show ?thesis by blast
  qed
qed

text \<open>
  C1. Whenever \<open>semanticSearch\<close> is called with a threshold and returns a result list,
  no element of the list has a score below that threshold. The list comes from the
  indexed path (\<open>$match\<close> with \<open>score >= threshold\<close>) or from the manual path
  (\<open>filter\<close> with \<open>score >= threshold\<close>), and both keep only such elements.
\<close>

theorem semanticSearch_threshold:
  "(semanticSearch srv query options calls = (Inr results, calls')
      \<and> opt_threshold options = Some threshold
      \<longrightarrow> (\<forall>r\<in>set results. \<not> score r < threshold))
   \<and> (atlasVectorSearch srv q limit threshold calls = (Inr indexed, calls1)
      \<longrightarrow> (\<forall>r\<in>set indexed. \<not> score r < threshold))
   \<and> (manualVectorSearch srv q limit threshold calls = (Inr scanned, calls2)
      \<longrightarrow> (\<forall>r\<in>set scanned. \<not> score r < threshold))"
proof (intro conjI impI ballI)
  fix r
  assume run: "semanticSearch srv query options calls = (Inr results, calls')
      \<and> opt_threshold options = Some threshold"
    and r: "r \<in> set results"
  from run semanticSearch_paths [of srv query options calls results calls']
  obtain q' limit' c1 where
    "atlasVectorSearch srv q' limit' threshold c1 = (Inr results, calls')
     \<or> manualVectorSearch srv q' limit' threshold c1 = (Inr results, calls')"
    by auto
  with r have "threshold \<le> score r"
    using atlasVectorSearch_threshold manualVectorSearch_threshold by blast
  then show "\<not> score r < threshold" by simp
next
  fix r
  assume "atlasVectorSearch srv q limit threshold calls = (Inr indexed, calls1)"
    and "r \<in> set indexed"
  then have "threshold \<le> score r" by (rule atlasVectorSearch_threshold)
  then show "\<not> score r < threshold" by simp
next
  fix r
  assume "manualVectorSearch srv q limit threshold calls = (Inr scanned, calls2)"
    and "r \<in> set scanned"
  then have "threshold \<le> score r" by (rule manualVectorSearch_threshold)
  then show "\<not> score r < threshold" by simp
qed

lemmas example_defs = exampleServices_def thesisD1_def thesisD2_def thesisD3_def
  ex_store2_def ex_store3_def ex_indexed_def ex_empty_def
  ex_rewrite_down_def ex_chat_def noOptions_def

lemmas search_defs = semanticSearch_def atlasVectorSearch_def manualVectorSearch_def
  generateQueryEmbedding_def vectorSearchStage_def addFieldsScore_def matchScoreGte_def
  projectFields_def scoreThesis_def dotProduct_def sort_cmp_def slice0_def

text \<open>
  The first search is answered by the index, the second falls back to the scan because
  the index throws; both drop the thesis whose score is below the threshold.
\<close>

theorem semanticSearch_threshold_witness:
  "semanticSearch ex_indexed (lit ''nlp'') \<lparr>opt_limit = Some 5, opt_threshold = Some (1 / 2)\<rparr> []
     = (Inr [\<lparr>doc = thesisD1\<lparr>embeddings := None\<rparr>, score = 9 / 10\<rparr>],
        [GenerateEmbeddings (lit ''nlp''), Aggregate (vectorSearchStage (Some [1, 0]) 5) (1 / 2)])
   \<and> \<not> score \<lparr>doc = thesisD1\<lparr>embeddings := None\<rparr>, score = 9 / 10\<rparr> < 1 / 2
   \<and> semanticSearch ex_store2 (lit ''nlp'') \<lparr>opt_limit = Some 5, opt_threshold = Some (1 / 2)\<rparr> []
     = (Inr [\<lparr>doc = thesisD1\<lparr>embeddings := None\<rparr>, score = 1\<rparr>],
        [GenerateEmbeddings (lit ''nlp''), Aggregate (vectorSearchStage (Some [1, 0]) 5) (1 / 2),
         Find None])
   \<and> \<not> score \<lparr>doc = thesisD1\<lparr>embeddings := None\<rparr>, score = 1\<rparr> < 1 / 2
   \<and> atlasVectorSearch ex_indexed (Some [1, 0]) 5 (1 / 2) []
     = (Inr [\<lparr>doc = thesisD1\<lparr>embeddings := None\<rparr>, score = 9 / 10\<rparr>],
        [Aggregate (vectorSearchStage (Some [1, 0]) 5) (1 / 2)])
   \<and> manualVectorSearch ex_store2 (Some [1, 0]) 5 (1 / 2) []
     = (Inr [\<lparr>doc = thesisD1\<lparr>embeddings := None\<rparr>, score = 1\<rparr>], [Find None])"
proof -
  let ?options = "\<lparr>opt_limit = Some 5, opt_threshold = Some (1 / 2)\<rparr>"
  let ?byIndex = "[\<lparr>doc = thesisD1\<lparr>embeddings := None\<rparr>, score = 9 / 10\<rparr>]"
  let ?byScan = "[\<lparr>doc = thesisD1\<lparr>embeddings := None\<rparr>, score = 1\<rparr>]"
  have indexed: "semanticSearch ex_indexed (lit ''nlp'') ?options []
     = (Inr ?byIndex,
        [GenerateEmbeddings (lit ''nlp''), Aggregate (vectorSearchStage (Some [1, 0]) 5) (1 / 2)])"
    by (simp add: search_defs io_defs example_defs)
  have fallback: "semanticSearch ex_store2 (lit ''nlp'') ?options []
     = (Inr ?byScan,
        [GenerateEmbeddings (lit ''nlp''), Aggregate (vectorSearchStage (Some [1, 0]) 5) (1 / 2),
         Find None])"
    by (simp add: search_defs io_defs example_defs upt_rec)
  have atlas: "atlasVectorSearch ex_indexed (Some [1, 0]) 5 (1 / 2) []
     = (Inr ?byIndex, [Aggregate (vectorSearchStage (Some [1, 0]) 5) (1 / 2)])"
    by (simp add: search_defs io_defs example_defs)
  have manual: "manualVectorSearch ex_store2 (Some [1, 0]) 5 (1 / 2) []
     = (Inr ?byScan, [Find None])"
    by (simp add: search_defs io_defs example_defs upt_rec)
  have threshold: "opt_threshold ?options = Some (1 / 2)" by simp
  show ?thesis
    using indexed fallback atlas manual
      semanticSearch_threshold [of ex_indexed "lit ''nlp''" ?options "[]" ?byIndex
        "[GenerateEmbeddings (lit ''nlp''), Aggregate (vectorSearchStage (Some [1, 0]) 5) (1 / 2)]"
        "1 / 2" "Some [1, 0]" 5 ?byIndex
        "[Aggregate (vectorSearchStage (Some [1, 0]) 5) (1 / 2)]" ?byScan "[Find None]"]
      semanticSearch_threshold [of ex_store2 "lit ''nlp''" ?options "[]" ?byScan
        "[GenerateEmbeddings (lit ''nlp''), Aggregate (vectorSearchStage (Some [1, 0]) 5) (1 / 2),
          Find None]"
        "1 / 2" "Some [1, 0]" 5 ?byIndex
        "[Aggregate (vectorSearchStage (Some [1, 0]) 5) (1 / 2)]" ?byScan "[Find None]"]
    by simp
qed



text \<open>
  A negative limit is not a number of results, and no list has a negative length. There
  \<open>slice(0, limit)\<close> counts from the end: with \<open>-1\<close> it drops the last of the two
  matching documents.
\<close>

lemma manualVectorSearch_negative_limit:
  "manualVectorSearch ex_store2 (Some [1, 0]) (- 1) 0 []
     = (Inr [\<lparr>doc = thesisD1\<lparr>embeddings := None\<rparr>, score = 1\<rparr>], [Find None])"
  by (simp add: search_defs io_defs example_defs upt_rec)

text \<open>
  C3, as the code has it. The indexed path asks the store for \<open>limit\<close> documents out
  of a candidate pool of the constant size 100, whatever the limit: ten times the default
  limit of 10, and at least the limit exactly when the limit is at most 100.
\<close>

theorem atlasVectorSearch_candidate_pool:
  "snd (atlasVectorSearch srv q limit threshold calls)
     = calls @ [Aggregate (vectorSearchStage q limit) threshold]
   \<and> vs_limit (vectorSearchStage q limit) = limit
   \<and> numCandidates (vectorSearchStage q limit) = 100
   \<and> numCandidates (vectorSearchStage q 10) = 10 * 10
   \<and> (limit \<le> 100 \<longrightarrow> numCandidates (vectorSearchStage q limit) \<ge> limit)
   \<and> (100 < limit \<longrightarrow> numCandidates (vectorSearchStage q limit) < limit)"
  by (simp add: atlasVectorSearch_def vectorSearchStage_def io_defs split: sum.splits)

theorem atlasVectorSearch_candidate_pool_witness:
  "(50::int) \<le> 100 \<and> numCandidates (vectorSearchStage (Some [1, 0]) 50) \<ge> 50
   \<and> (100::int) < 200 \<and> numCandidates (vectorSearchStage (Some [1, 0]) 200) < 200"
  using atlasVectorSearch_candidate_pool [of ex_indexed "Some [1, 0]" 50 "1 / 2" "[]"]
    atlasVectorSearch_candidate_pool [of ex_indexed "Some [1, 0]" 200 "1 / 2" "[]"]
  by simp

text \<open>With the limit 101 the candidate pool of 100 is smaller than the limit.\<close>

theorem atlasVectorSearch_candidate_pool_counterexample:
  "snd (atlasVectorSearch ex_indexed (Some [1, 0]) 101 (1 / 2) [])
     = [Aggregate (vectorSearchStage (Some [1, 0]) 101) (1 / 2)]
   \<and> \<not> numCandidates (vectorSearchStage (Some [1, 0]) 101) \<ge> 101"
  by (simp add: atlasVectorSearch_def vectorSearchStage_def io_defs example_defs)











lemma findSimilarTheses_returns:
  assumes "collection srv (calls @ [FindById thesisId]) = Inr storedFirst"
    and "find (\<lambda>t. thesis_id t = thesisId) storedFirst = Some reference"
    and "collection srv (calls @ [FindById thesisId, Find (Some thesisId)]) = Inr stored"
    and "mapE (scoreThesis (embeddings reference)) (filter (\<lambda>t. thesis_id t \<noteq> thesisId) stored)
           = Inr scoredAll"
  shows "findSimilarTheses srv thesisId limitArg calls
           = (Inr (slice0 (sort_cmp (\<lambda>a b. score b - score a) scoredAll)
                     (case limitArg of None \<Rightarrow> 5 | Some l \<Rightarrow> l)),
              calls @ [FindById thesisId, Find (Some thesisId)])"
  using assms by (simp add: findSimilarTheses_def io_defs Let_def)



text \<open>
  A negative limit is not a number of results. There \<open>slice(0, limit)\<close> counts from the
  end: with \<open>-1\<close> and two other documents it returns the closer one.
\<close>

lemma findSimilarTheses_negative_limit:
  "findSimilarTheses ex_store3 1 (Some (- 1)) []
     = (Inr [\<lparr>doc = thesisD3\<lparr>embeddings := None\<rparr>, score = 3 / 5\<rparr>],
        [FindById 1, Find (Some 1)])"
  by (simp add: findSimilarTheses_def scoreThesis_def dotProduct_def sort_cmp_def slice0_def
        io_defs example_defs upt_rec)



section \<open>Properties of the chat service\<close>

lemma generateText_run:
  "generateText srv p t m calls =
     (case textGeneration srv (calls @ [GenerateText p t m]) of
        Inl e \<Rightarrow> Inl (TextGenerationFailed e) | Inr v \<Rightarrow> Inr v,
      calls @ [GenerateText p t m])"
  by (simp add: generateText_def io_defs split: sum.splits)

lemma rewriteQuery_run:
  "rewriteQuery srv userQuery history calls =
     (Inr (case textGeneration srv (calls @ [GenerateText (rewritePrompt userQuery history) (3 / 10) 100]) of
             Inl e \<Rightarrow> userQuery
           | Inr None \<Rightarrow> userQuery
           | Inr (Some generated) \<Rightarrow>
               if cleanQuery generated = [] \<or> length (cleanQuery generated) < 3
               then userQuery else cleanQuery generated),
      calls @ [GenerateText (rewritePrompt userQuery history) (3 / 10) 100])"
  by (simp add: rewriteQuery_def generateText_run bindM_def catchM_def returnM_def throwM_def Let_def
           split: sum.splits option.splits)

lemma generateRAGResponse_run:
  "generateRAGResponse srv userMessage context history calls =
     (case textGeneration srv (calls @ [GenerateText (ragPrompt userMessage context history) (7 / 10) 500]) of
        Inl e \<Rightarrow> Inl (TextGenerationFailed e)
      | Inr None \<Rightarrow> Inl TypeError
      | Inr (Some text) \<Rightarrow> Inr (trim text),
      calls @ [GenerateText (ragPrompt userMessage context history) (7 / 10) 500])"
  by (simp add: generateRAGResponse_def generateText_run bindM_def catchM_def returnM_def throwM_def
           split: sum.splits option.splits)

lemma generateRAGResponse_basic_run:
  "generateRAGResponse_basic srv userMessage context history calls =
     (case textGeneration srv (calls @ [GenerateText (ragPrompt_basic userMessage context history) (7 / 10) 500]) of
        Inl e \<Rightarrow> Inl (TextGenerationFailed e)
      | Inr None \<Rightarrow> Inl TypeError
      | Inr (Some text) \<Rightarrow> Inr (trim text),
      calls @ [GenerateText (ragPrompt_basic userMessage context history) (7 / 10) 500])"
  by (simp add: generateRAGResponse_basic_def generateText_run bindM_def catchM_def returnM_def throwM_def
           split: sum.splits option.splits)

lemma processMessage_run:
  assumes "rewriteQuery srv message (historyOf options) calls = (Inr optimizedQuery, calls1)"
    and "semanticSearch srv optimizedQuery
           \<lparr>opt_limit = Some (topKOf options), opt_threshold = Some (3 / 10)\<rparr> calls1
         = (Inr relevantTheses, calls2)"
  shows "processMessage srv message options calls =
     (if relevantTheses = []
      then (Inr \<lparr>answer = noRelevantTheses, sources = [],
                 conversationHistory = historyOf options @ [userTurn message]\<rparr>, calls2)
      else (case generateRAGResponse srv message (buildContext relevantTheses) (historyOf options) calls2 of
              (Inl e, calls3) \<Rightarrow> (Inl (ChatProcessingFailed e), calls3)
            | (Inr reply, calls3) \<Rightarrow>
                (Inr \<lparr>answer = reply, sources = map formatSource relevantTheses,
                      conversationHistory =
                        historyOf options @ [userTurn message, assistantTurn reply]\<rparr>, calls3)))"
  using assms
  by (simp add: processMessage_def bindM_def catchM_def returnM_def
        throwM_def Let_def split: prod.splits sum.splits)

lemma processMessage_basic_run:
  assumes "semanticSearch srv message
           \<lparr>opt_limit = Some (topKOf options), opt_threshold = Some (3 / 10)\<rparr> calls
         = (Inr relevantTheses, calls2)"
  shows "processMessage_basic srv message options calls =
     (if relevantTheses = []
      then (Inr \<lparr>answer = noRelevantTheses, sources = [],
                 conversationHistory = historyOf options @ [userTurn message]\<rparr>, calls2)
      else (case generateRAGResponse_basic srv message (buildContext_basic relevantTheses) (historyOf options) calls2 of
              (Inl e, calls3) \<Rightarrow> (Inl (ChatProcessingFailed e), calls3)
            | (Inr reply, calls3) \<Rightarrow>
                (Inr \<lparr>answer = reply, sources = map formatSource relevantTheses,
                      conversationHistory =
                        historyOf options @ [userTurn message, assistantTurn reply]\<rparr>, calls3)))"
  using assms
  by (simp add: processMessage_basic_def bindM_def catchM_def returnM_def
        throwM_def Let_def split: prod.splits sum.splits)

lemma generateQueryEmbedding_run:
  "generateQueryEmbedding srv query calls =
     (case embeddingModel srv (calls @ [GenerateEmbeddings query]) of
        Inl e \<Rightarrow> Inl (QueryEmbeddingFailed e) | Inr v \<Rightarrow> Inr v,
      calls @ [GenerateEmbeddings query])"
  by (simp add: generateQueryEmbedding_def io_defs split: sum.splits)

lemma atlasVectorSearch_calls:
  "snd (atlasVectorSearch srv q limit threshold calls)
     = calls @ [Aggregate (vectorSearchStage q limit) threshold]"
  by (simp add: atlasVectorSearch_def io_defs split: sum.splits)

lemma manualVectorSearch_calls:
  "snd (manualVectorSearch srv q limit threshold calls) = calls @ [Find None]"
  by (simp add: manualVectorSearch_def io_defs split: sum.splits)

lemma semanticSearch_calls:
  "\<exists>rest. snd (semanticSearch srv query options calls) = calls @ GenerateEmbeddings query # rest
          \<and> filter isGenerateText rest = []"
proof -
  let ?limit = "case opt_limit options of None \<Rightarrow> 10 | Some l \<Rightarrow> l"
  let ?threshold = "case opt_threshold options of None \<Rightarrow> 1 / 2 | Some t \<Rightarrow> t"
  let ?c1 = "calls @ [GenerateEmbeddings query]"
  show ?thesis
  proof (cases "embeddingModel srv ?c1")
    case (Inl e)
    then have "snd (semanticSearch srv query options calls) = ?c1"
      by (simp add: semanticSearch_def generateQueryEmbedding_run bindM_def catchM_def throwM_def Let_def)
    then show ?thesis by simp
  next
    case (Inr q)
    obtain r2 where atlas: "atlasVectorSearch srv q ?limit ?threshold ?c1
                            = (r2, ?c1 @ [Aggregate (vectorSearchStage q ?limit) ?threshold])"
      using atlasVectorSearch_calls [of srv q ?limit ?threshold ?c1]
      by (cases "atlasVectorSearch srv q ?limit ?threshold ?c1") simp
    let ?c2 = "?c1 @ [Aggregate (vectorSearchStage q ?limit) ?threshold]"
    obtain r3 where manual: "manualVectorSearch srv q ?limit ?threshold ?c2 = (r3, ?c2 @ [Find None])"
      using manualVectorSearch_calls [of srv q ?limit ?threshold ?c2]
      by (cases "manualVectorSearch srv q ?limit ?threshold ?c2") simp
    have "snd (semanticSearch srv query options calls) = ?c2
          \<or> snd (semanticSearch srv query options calls) = ?c2 @ [Find None]"
      using Inr atlas manual
      by (simp add: semanticSearch_def generateQueryEmbedding_run bindM_def catchM_def throwM_def
            returnM_def Let_def split: sum.splits)
    then show ?thesis by auto
  qed
qed

lemma noRelevantTheses_nonempty: "noRelevantTheses \<noteq> []"
  by (simp add: noRelevantTheses_def lit_def)

lemma rewriteQuery_fallback:
  "rewriteFails srv userQuery history calls \<Longrightarrow>
   rewriteQuery srv userQuery history calls
     = (Inr userQuery, calls @ [GenerateText (rewritePrompt userQuery history) (3 / 10) 100])"
  by (auto simp: rewriteQuery_run rewriteFails_def split: sum.splits option.splits)

lemma processMessage_calls_prefix:
  assumes "rewriteQuery srv message (historyOf options) calls = (Inr optimizedQuery, calls1)"
  shows "\<exists>rest. snd (processMessage srv message options calls)
                 = calls1 @ GenerateEmbeddings optimizedQuery # rest"
proof -
  let ?opts = "\<lparr>opt_limit = Some (topKOf options), opt_threshold = Some (3 / 10)\<rparr>"
  obtain r2 calls2 where search: "semanticSearch srv optimizedQuery ?opts calls1 = (r2, calls2)"
    by (cases "semanticSearch srv optimizedQuery ?opts calls1")
  from semanticSearch_calls [of srv optimizedQuery ?opts calls1] search
  obtain rest where c2: "calls2 = calls1 @ GenerateEmbeddings optimizedQuery # rest"
    by auto
  show ?thesis
  proof (cases r2)
    case (Inl e)
    with assms search have "snd (processMessage srv message options calls) = calls2"
      by (simp add: processMessage_def bindM_def catchM_def throwM_def Let_def)
    with c2 show ?thesis by simp
  next
    case (Inr relevantTheses)
    with search have "semanticSearch srv optimizedQuery ?opts calls1 = (Inr relevantTheses, calls2)"
      by simp
    from processMessage_run [OF assms this]
    have "snd (processMessage srv message options calls) = calls2
        \<or> snd (processMessage srv message options calls)
            = calls2 @ [GenerateText (ragPrompt message (buildContext relevantTheses) (historyOf options))
                          (7 / 10) 500]"
      by (simp add: generateRAGResponse_run split: sum.splits option.splits if_splits)
    with c2 show ?thesis by auto
  qed
qed

lemma cleanQuery_example: "cleanQuery (lit ''deep learning'') = lit ''deep learning''"
  by (simp add: cleanQuery_def trim_def stripQuotes_def replaceNewlines_def isWhiteSpace_def
        isQuote_def lit_def)

lemma cleanQuery_example2: "cleanQuery (lit '' \"AI\<newline>\<newline>ethics\" '') = lit ''AI ethics''"
  by (simp add: cleanQuery_def trim_def stripQuotes_def replaceNewlines_def isWhiteSpace_def
        isQuote_def lit_def)

text \<open>
  C4. \<open>rewriteQuery\<close> returns a query on every input and never throws. When the
  rewriting produced nothing (the generation call threw, or its cleaned output is empty or
  shorter than 3 code units), it returns the user's message unchanged; \<open>processMessage\<close>
  then embeds and searches that message, and returns a result whenever the search returns
  and, if documents were found, the answer is generated.
\<close>

theorem rewriteQuery_never_propagates:
  assumes "rewriteFails srv message (historyOf options) calls"
  shows "(\<forall>userQuery history before. \<exists>q. fst (rewriteQuery srv userQuery history before) = Inr q)
       \<and> fst (rewriteQuery srv message (historyOf options) calls) = Inr message
       \<and> (\<exists>rest. snd (processMessage srv message options calls)
              = calls @ [GenerateText (rewritePrompt message (historyOf options)) (3 / 10) 100,
                         GenerateEmbeddings message] @ rest)
       \<and> (\<forall>relevantTheses calls2 reply.
             semanticSearch srv message
               \<lparr>opt_limit = Some (topKOf options), opt_threshold = Some (3 / 10)\<rparr>
               (calls @ [GenerateText (rewritePrompt message (historyOf options)) (3 / 10) 100])
               = (Inr relevantTheses, calls2)
             \<and> (relevantTheses = []
                \<or> textGeneration srv
                     (calls2 @ [GenerateText (ragPrompt message (buildContext relevantTheses)
                                                (historyOf options)) (7 / 10) 500])
                   = Inr (Some reply))
             \<longrightarrow> (\<exists>result. fst (processMessage srv message options calls) = Inr result))"
proof (intro conjI allI impI)
  fix userQuery history before
  show "\<exists>q. fst (rewriteQuery srv userQuery history before) = Inr q"
    by (simp add: rewriteQuery_run)
next
  note fallback = rewriteQuery_fallback [OF assms]
  show "fst (rewriteQuery srv message (historyOf options) calls) = Inr message"
    by (simp add: fallback)
  from processMessage_calls_prefix [OF fallback]
  show "\<exists>rest. snd (processMessage srv message options calls)
              = calls @ [GenerateText (rewritePrompt message (historyOf options)) (3 / 10) 100,
                         GenerateEmbeddings message] @ rest"
    by simp
  fix relevantTheses calls2 reply
  assume "semanticSearch srv message
               \<lparr>opt_limit = Some (topKOf options), opt_threshold = Some (3 / 10)\<rparr>
               (calls @ [GenerateText (rewritePrompt message (historyOf options)) (3 / 10) 100])
               = (Inr relevantTheses, calls2)
             \<and> (relevantTheses = []
                \<or> textGeneration srv
                     (calls2 @ [GenerateText (ragPrompt message (buildContext relevantTheses)
                                                (historyOf options)) (7 / 10) 500])
                   = Inr (Some reply))"
  then have search: "semanticSearch srv message
               \<lparr>opt_limit = Some (topKOf options), opt_threshold = Some (3 / 10)\<rparr>
               (calls @ [GenerateText (rewritePrompt message (historyOf options)) (3 / 10) 100])
               = (Inr relevantTheses, calls2)"
    and ok: "relevantTheses = []
                \<or> textGeneration srv
                     (calls2 @ [GenerateText (ragPrompt message (buildContext relevantTheses)
                                                (historyOf options)) (7 / 10) 500])
                   = Inr (Some reply)"
    by simp_all
  from ok show "\<exists>result. fst (processMessage srv message options calls) = Inr result"
    by (auto simp: processMessage_run [OF fallback search] generateRAGResponse_run)
qed

theorem rewriteQuery_never_propagates_witness:
  "rewriteFails ex_rewrite_down (lit ''AI healthcare'') (historyOf noOptions) []
   \<and> fst (rewriteQuery ex_rewrite_down (lit ''AI healthcare'') (historyOf noOptions) [])
       = Inr (lit ''AI healthcare'')
   \<and> (\<exists>result. fst (processMessage ex_rewrite_down (lit ''AI healthcare'') noOptions []) = Inr result)"
proof -
  let ?message = "lit ''AI healthcare''"
  let ?rewriteCall = "GenerateText (rewritePrompt ?message (historyOf noOptions)) (3 / 10) 100"
  let ?found = "[\<lparr>doc = thesisD1\<lparr>embeddings := None\<rparr>, score = 1\<rparr>]"
  let ?calls2 = "[?rewriteCall, GenerateEmbeddings ?message,
                  Aggregate (vectorSearchStage (Some [1, 0]) 3) (3 / 10), Find None]"
  have fails: "rewriteFails ex_rewrite_down ?message (historyOf noOptions) []"
    by (simp add: rewriteFails_def example_defs)
  have search: "semanticSearch ex_rewrite_down ?message
                  \<lparr>opt_limit = Some (topKOf noOptions), opt_threshold = Some (3 / 10)\<rparr>
                  ([] @ [?rewriteCall])
                = (Inr ?found, ?calls2)"
    by (simp add: search_defs io_defs example_defs topKOf_def upt_rec)
  have answered: "textGeneration ex_rewrite_down
                    (?calls2 @ [GenerateText (ragPrompt ?message (buildContext ?found)
                                               (historyOf noOptions)) (7 / 10) 500])
                  = Inr (Some (lit ''See Thesis 1.''))"
    by (simp add: example_defs)
  from rewriteQuery_never_propagates [OF fails] search answered
  show ?thesis
    using fails by blast
qed

text \<open>
  C5. When the search of a chat turn returns no documents, \<open>processMessage\<close> returns
  the canned answer, which is not empty, no sources, and the given history followed by
  the user's turn only. The text generation is called once, to rewrite the query, and not
  for an answer; the chat service without query rewriting does not call it at all.
\<close>

theorem processMessage_no_documents:
  "(rewriteQuery srv message (historyOf options) calls = (Inr optimizedQuery, calls1)
      \<and> semanticSearch srv optimizedQuery
           \<lparr>opt_limit = Some (topKOf options), opt_threshold = Some (3 / 10)\<rparr> calls1
         = (Inr [], calls2)
      \<longrightarrow> processMessage srv message options calls
            = (Inr \<lparr>answer = noRelevantTheses, sources = [],
                    conversationHistory = historyOf options @ [userTurn message]\<rparr>, calls2)
          \<and> filter isGenerateText calls2
            = filter isGenerateText calls
              @ [GenerateText (rewritePrompt message (historyOf options)) (3 / 10) 100])
   \<and> (semanticSearch srv message
           \<lparr>opt_limit = Some (topKOf options), opt_threshold = Some (3 / 10)\<rparr> calls
         = (Inr [], calls3)
      \<longrightarrow> processMessage_basic srv message options calls
            = (Inr \<lparr>answer = noRelevantTheses, sources = [],
                    conversationHistory = historyOf options @ [userTurn message]\<rparr>, calls3)
          \<and> filter isGenerateText calls3 = filter isGenerateText calls)
   \<and> noRelevantTheses \<noteq> []"
proof (intro conjI impI)
  let ?opts = "\<lparr>opt_limit = Some (topKOf options), opt_threshold = Some (3 / 10)\<rparr>"
  show "noRelevantTheses \<noteq> []" by (rule noRelevantTheses_nonempty)
  {
    assume both: "rewriteQuery srv message (historyOf options) calls = (Inr optimizedQuery, calls1)
      \<and> semanticSearch srv optimizedQuery ?opts calls1 = (Inr [], calls2)"
    then have rewrite: "rewriteQuery srv message (historyOf options) calls = (Inr optimizedQuery, calls1)"
      and search: "semanticSearch srv optimizedQuery ?opts calls1 = (Inr [], calls2)"
      by simp_all
    have c1: "calls1 = calls @ [GenerateText (rewritePrompt message (historyOf options)) (3 / 10) 100]"
      using rewrite by (simp add: rewriteQuery_run)
    from semanticSearch_calls [of srv optimizedQuery ?opts calls1] search
    obtain rest where "calls2 = calls1 @ GenerateEmbeddings optimizedQuery # rest"
      and "filter isGenerateText rest = []"
      by auto
    then show "filter isGenerateText calls2
           = filter isGenerateText calls
             @ [GenerateText (rewritePrompt message (historyOf options)) (3 / 10) 100]"
      by (simp add: c1)
    show "processMessage srv message options calls
            = (Inr \<lparr>answer = noRelevantTheses, sources = [],
                    conversationHistory = historyOf options @ [userTurn message]\<rparr>, calls2)"
      using processMessage_run [OF rewrite search] by simp
  }
  {
    assume search: "semanticSearch srv message ?opts calls = (Inr [], calls3)"
    from semanticSearch_calls [of srv message ?opts calls] search
    obtain rest where "calls3 = calls @ GenerateEmbeddings message # rest"
      and "filter isGenerateText rest = []"
      by auto
    then show "filter isGenerateText calls3 = filter isGenerateText calls"
      by simp
    show "processMessage_basic srv message options calls
            = (Inr \<lparr>answer = noRelevantTheses, sources = [],
                    conversationHistory = historyOf options @ [userTurn message]\<rparr>, calls3)"
      using processMessage_basic_run [OF search] by simp
  }
qed

theorem processMessage_no_documents_witness:
  "processMessage ex_empty (lit ''quantum stuff'') noOptions []
     = (Inr \<lparr>answer = noRelevantTheses, sources = [],
             conversationHistory = historyOf noOptions @ [userTurn (lit ''quantum stuff'')]\<rparr>,
        [GenerateText (rewritePrompt (lit ''quantum stuff'') (historyOf noOptions)) (3 / 10) 100,
         GenerateEmbeddings (lit ''quantum stuff''),
         Aggregate (vectorSearchStage (Some [1, 0]) 3) (3 / 10), Find None])
   \<and> processMessage_basic ex_empty (lit ''quantum stuff'') noOptions []
     = (Inr \<lparr>answer = noRelevantTheses, sources = [],
             conversationHistory = historyOf noOptions @ [userTurn (lit ''quantum stuff'')]\<rparr>,
        [GenerateEmbeddings (lit ''quantum stuff''),
         Aggregate (vectorSearchStage (Some [1, 0]) 3) (3 / 10), Find None])"
proof -
  let ?message = "lit ''quantum stuff''"
  let ?rewriteCall = "GenerateText (rewritePrompt ?message (historyOf noOptions)) (3 / 10) 100"
  let ?searchCalls = "[GenerateEmbeddings ?message,
                       Aggregate (vectorSearchStage (Some [1, 0]) 3) (3 / 10), Find None]"
  have rewrite: "rewriteQuery ex_empty ?message (historyOf noOptions) []
                 = (Inr ?message, [?rewriteCall])"
    by (simp add: rewriteQuery_run example_defs)
  have search: "semanticSearch ex_empty ?message
                  \<lparr>opt_limit = Some (topKOf noOptions), opt_threshold = Some (3 / 10)\<rparr>
                  [?rewriteCall]
                = (Inr [], ?rewriteCall # ?searchCalls)"
    by (simp add: search_defs io_defs example_defs topKOf_def)
  have search_basic: "semanticSearch ex_empty ?message
                  \<lparr>opt_limit = Some (topKOf noOptions), opt_threshold = Some (3 / 10)\<rparr> []
                = (Inr [], ?searchCalls)"
    by (simp add: search_defs io_defs example_defs topKOf_def)
  show ?thesis
    using rewrite search search_basic
      processMessage_no_documents [of ex_empty ?message noOptions "[]" ?message "[?rewriteCall]"
        "?rewriteCall # ?searchCalls" ?searchCalls]
    by simp
qed

text \<open>
  C7. When the search of a chat turn returns documents, the last call of the turn asks
  the text generation for the answer, and the question in its prompt is the user's
  message, whatever the rewritten query was. The rewritten query went to the search only.
\<close>

theorem processMessage_question_is_original_message:
  assumes "rewriteQuery srv message (historyOf options) calls = (Inr optimizedQuery, calls1)"
    and "semanticSearch srv optimizedQuery
           \<lparr>opt_limit = Some (topKOf options), opt_threshold = Some (3 / 10)\<rparr> calls1
         = (Inr relevantTheses, calls2)"
    and "relevantTheses \<noteq> []"
  shows "snd (processMessage srv message options calls)
           = calls2 @ [GenerateText (ragPrompt message (buildContext relevantTheses) (historyOf options))
                         (7 / 10) 500]
       \<and> ragPrompt message (buildContext relevantTheses) (historyOf options)
           = ragPreamble (buildContext relevantTheses) (historyOf options)
             @ lit ''User question: '' @ message @ ragInstructions
       \<and> filter isGenerateText (snd (processMessage srv message options calls))
           = filter isGenerateText calls
             @ [GenerateText (rewritePrompt message (historyOf options)) (3 / 10) 100,
                GenerateText (ragPrompt message (buildContext relevantTheses) (historyOf options))
                  (7 / 10) 500]"
proof -
  let ?opts = "\<lparr>opt_limit = Some (topKOf options), opt_threshold = Some (3 / 10)\<rparr>"
  let ?answerCall = "GenerateText (ragPrompt message (buildContext relevantTheses) (historyOf options))
                         (7 / 10) 500"
  have c1: "calls1 = calls @ [GenerateText (rewritePrompt message (historyOf options)) (3 / 10) 100]"
    using assms(1) by (simp add: rewriteQuery_run)
  from semanticSearch_calls [of srv optimizedQuery ?opts calls1] assms(2)
  obtain rest where "calls2 = calls1 @ GenerateEmbeddings optimizedQuery # rest"
    and "filter isGenerateText rest = []"
    by auto
  then have gen2: "filter isGenerateText calls2
           = filter isGenerateText calls
             @ [GenerateText (rewritePrompt message (historyOf options)) (3 / 10) 100]"
    by (simp add: c1)
  have log: "snd (processMessage srv message options calls) = calls2 @ [?answerCall]"
    using assms(3)
    by (simp add: processMessage_run [OF assms(1,2)] generateRAGResponse_run
          split: sum.splits option.splits)
  show ?thesis
    using log gen2 by (simp add: ragPrompt_def)
qed

theorem processMessage_question_is_original_message_witness:
  "rewriteQuery ex_chat (lit ''DL?'') (historyOf noOptions) []
     = (Inr (lit ''deep learning''),
        [GenerateText (rewritePrompt (lit ''DL?'') (historyOf noOptions)) (3 / 10) 100])
   \<and> snd (processMessage ex_chat (lit ''DL?'') noOptions [])
     = [GenerateText (rewritePrompt (lit ''DL?'') (historyOf noOptions)) (3 / 10) 100,
        GenerateEmbeddings (lit ''deep learning''),
        Aggregate (vectorSearchStage (Some [1, 0]) 3) (3 / 10),
        GenerateText
          (ragPreamble (buildContext [\<lparr>doc = thesisD1\<lparr>embeddings := None\<rparr>, score = 9 / 10\<rparr>])
             (historyOf noOptions)
           @ lit ''User question: '' @ lit ''DL?'' @ ragInstructions)
          (7 / 10) 500]"
proof -
  let ?message = "lit ''DL?''"
  let ?rewriteCall = "GenerateText (rewritePrompt ?message (historyOf noOptions)) (3 / 10) 100"
  let ?found = "[\<lparr>doc = thesisD1\<lparr>embeddings := None\<rparr>, score = 9 / 10\<rparr>]"
  have rewrite: "rewriteQuery ex_chat ?message (historyOf noOptions) []
                 = (Inr (lit ''deep learning''), [?rewriteCall])"
    by (simp add: rewriteQuery_run example_defs cleanQuery_example) (simp add: lit_def)
  have search: "semanticSearch ex_chat (lit ''deep learning'')
                  \<lparr>opt_limit = Some (topKOf noOptions), opt_threshold = Some (3 / 10)\<rparr>
                  [?rewriteCall]
                = (Inr ?found,
                   [?rewriteCall, GenerateEmbeddings (lit ''deep learning''),
                    Aggregate (vectorSearchStage (Some [1, 0]) 3) (3 / 10)])"
    by (simp add: search_defs io_defs example_defs topKOf_def)
  have nonempty: "?found \<noteq> []" by simp
  show ?thesis
    using rewrite processMessage_question_is_original_message [OF rewrite search nonempty]
    by simp
qed

end
